theory Spec2Isabelle
  imports Complex_Main "HOL-Library.AList" "HOL-Library.Sublist" "HOL-Library.Log_Nat"
begin

section \<open>Python values\<close>

text \<open>
  The program is dynamically typed: what \<^verbatim>\<open>resp.json()\<close> returns, and what the
  fetchers hand to the rest of the program, is \<^verbatim>\<open>None\<close>, a bool, an int, a float, a
  str, a list or a dict with string keys. A dict is an association list read with
  \<^const>\<open>map_of\<close> (the first entry of a key is its value). Strings are their UTF-8
  bytes.

  A float is an IEEE 754 double. \<open>PFloat q\<close> is the finite double whose exact value is
  the rational \<open>q\<close> (\<open>PFloat 0\<close> is \<^verbatim>\<open>0.0\<close>); \<open>PNegZero\<close> is \<^verbatim>\<open>-0.0\<close>; \<open>PInf\<close>,
  \<open>PNegInf\<close> and \<open>PNaN\<close> are the two infinities and NaN, which \<^verbatim>\<open>resp.json()\<close>
  returns for \<^verbatim>\<open>Infinity\<close>, \<^verbatim>\<open>-Infinity\<close>, \<^verbatim>\<open>NaN\<close> and for a number too large for
  a double.
\<close>

datatype pyval =
    PNone
  | PBool bool
  | PInt int
  | PFloat rat
  | PNegZero
  | PInf
  | PNegInf
  | PNaN
  | PStr string
  | PList "pyval list"
  | PDict "(string \<times> pyval) list"

datatype exn = RequestException | ValueError | TypeError | KeyError | IndexError
  | ZeroDivisionError | OverflowError

text \<open>\<^verbatim>\<open>isinstance(v, (int, float))\<close>: bool is a subclass of int.\<close>

fun is_int :: "pyval \<Rightarrow> bool" where
  "is_int (PBool b) = True"
| "is_int (PInt i) = True"
| "is_int v = False"

fun is_float :: "pyval \<Rightarrow> bool" where
  "is_float (PFloat q) = True"
| "is_float PNegZero = True"
| "is_float PInf = True"
| "is_float PNegInf = True"
| "is_float PNaN = True"
| "is_float v = False"

fun is_int_or_float :: "pyval \<Rightarrow> bool" where
  "is_int_or_float (PBool b) = True"
| "is_int_or_float (PInt i) = True"
| "is_int_or_float (PFloat q) = True"
| "is_int_or_float PNegZero = True"
| "is_int_or_float PInf = True"
| "is_int_or_float PNegInf = True"
| "is_int_or_float PNaN = True"
| "is_int_or_float v = False"

text \<open>The value of an int or a bool (\<^verbatim>\<open>True == 1\<close>).\<close>

fun int_of :: "pyval \<Rightarrow> int" where
  "int_of (PBool b) = (if b then 1 else 0)"
| "int_of (PInt i) = i"
| "int_of v = 0"

text \<open>The numeric value of an int, a bool or a finite float.\<close>

fun num_of :: "pyval \<Rightarrow> rat option" where
  "num_of (PBool b) = Some (if b then 1 else 0)"
| "num_of (PInt i) = Some (of_int i)"
| "num_of (PFloat q) = Some q"
| "num_of PNegZero = Some 0"
| "num_of v = None"

text \<open>
  Truth value of an object, as \<^verbatim>\<open>and\<close> and \<^verbatim>\<open>if\<close> test it: a number is true
  unless it is zero (NaN and the infinities are true).
\<close>

fun truthy :: "pyval \<Rightarrow> bool" where
  "truthy PNone = False"
| "truthy (PBool b) = b"
| "truthy (PInt i) = (i \<noteq> 0)"
| "truthy (PFloat q) = (q \<noteq> 0)"
| "truthy PNegZero = False"
| "truthy PInf = True"
| "truthy PNegInf = True"
| "truthy PNaN = True"
| "truthy (PStr s) = (s \<noteq> [])"
| "truthy (PList xs) = (xs \<noteq> [])"
| "truthy (PDict kvs) = (kvs \<noteq> [])"

text \<open>\<^verbatim>\<open>d.get(key)\<close> on the entries of a dict: \<^verbatim>\<open>None\<close> for a missing key.\<close>

definition dict_get :: "(string \<times> pyval) list \<Rightarrow> string \<Rightarrow> pyval" where
  "dict_get kvs k = (case map_of kvs k of Some v \<Rightarrow> v | None \<Rightarrow> PNone)"

text \<open>\<^verbatim>\<open>d[key]\<close>: a missing key raises, and so does subscripting \<^verbatim>\<open>None\<close>.\<close>

fun subscript_key :: "pyval \<Rightarrow> string \<Rightarrow> exn + pyval" where
  "subscript_key (PDict kvs) k =
     (case map_of kvs k of Some v \<Rightarrow> Inr v | None \<Rightarrow> Inl KeyError)"
| "subscript_key v k = Inl TypeError"

text \<open>
  \<^verbatim>\<open>item[1]\<close>, as the list comprehension of the moving average reads it. Of a str
  it is a one-character str (the model reads a byte where Python reads a code point;
  the component is a str either way).
\<close>

fun subscript_1 :: "pyval \<Rightarrow> exn + pyval" where
  "subscript_1 (PList (x # y # zs)) = Inr y"
| "subscript_1 (PList xs) = Inl IndexError"
| "subscript_1 (PStr (c # d # cs)) = Inr (PStr [d])"
| "subscript_1 (PStr s) = Inl IndexError"
| "subscript_1 (PDict kvs) = Inl KeyError"
| "subscript_1 v = Inl TypeError"

section \<open>Float arithmetic\<close>

text \<open>
  Rounding a rational to the nearest double, ties to the even significand. \<open>binade a\<close>
  is the exponent \<open>e\<close> with \<open>2^e \<le> a < 2^(e+1)\<close>. A double has 53 significant bits,
  so between \<open>2^e\<close> and \<open>2^(e+1)\<close> the doubles are the multiples of \<open>2^(e-52)\<close>;
  below \<open>2^-1022\<close> (the subnormal range) they are the multiples of \<open>2^-1074\<close>. A value
  that rounds to \<open>2^1024\<close> or more becomes an infinity; a nonzero value that rounds
  to zero keeps its sign.
\<close>

definition round_half_even :: "rat \<Rightarrow> int" where
  "round_half_even x =
     (let f = \<lfloor>x\<rfloor>; d = x - of_int f
      in if d < 1 / 2 then f else if 1 / 2 < d then f + 1 else if even f then f else f + 1)"

definition binade :: "rat \<Rightarrow> int" where
  "binade a =
     (let (n, d) = quotient_of a; k = bitlen n - bitlen d
      in if 2 powi k \<le> a then k else k - 1)"

definition signed_zero :: "bool \<Rightarrow> pyval" where
  "signed_zero negative = (if negative then PNegZero else PFloat 0)"

definition signed_inf :: "bool \<Rightarrow> pyval" where
  "signed_inf negative = (if negative then PNegInf else PInf)"

definition round_to_double :: "rat \<Rightarrow> pyval" where
  "round_to_double x =
     (if x = 0 then PFloat 0
      else if 1023 < binade \<bar>x\<bar> then signed_inf (x < 0)
      else
        (let q = 2 powi (max (binade \<bar>x\<bar>) (- 1022) - 52);
             n = round_half_even (\<bar>x\<bar> / q)
         in if binade \<bar>x\<bar> = 1023 \<and> n = 2 ^ 53 then signed_inf (x < 0)
            else if n = 0 then signed_zero (x < 0)
            else PFloat (if x < 0 then - (of_int n * q) else of_int n * q)))"

text \<open>The sign bit of a float.\<close>

fun sign_bit :: "pyval \<Rightarrow> bool" where
  "sign_bit (PFloat q) = (q < 0)"
| "sign_bit PNegZero = True"
| "sign_bit PNegInf = True"
| "sign_bit v = False"

text \<open>
  An operand of a float operation: a float is taken as it is, an int or bool is
  converted to the nearest double, and an int too large for a double raises
  OverflowError.
\<close>

fun py_float :: "pyval \<Rightarrow> exn + pyval" where
  "py_float (PBool b) = Inr (PFloat (if b then 1 else 0))"
| "py_float (PInt i) =
     (case round_to_double (of_int i) of
        PInf \<Rightarrow> Inl OverflowError
      | PNegInf \<Rightarrow> Inl OverflowError
      | d \<Rightarrow> Inr d)"
| "py_float (PFloat q) = Inr (PFloat q)"
| "py_float PNegZero = Inr PNegZero"
| "py_float PInf = Inr PInf"
| "py_float PNegInf = Inr PNegInf"
| "py_float PNaN = Inr PNaN"
| "py_float v = Inl TypeError"

text \<open>
  Division of two floats: a zero divisor raises, whatever the dividend; otherwise the
  IEEE quotient, which overflows to an infinity and underflows to a signed zero without
  raising.
\<close>

definition float_div :: "pyval \<Rightarrow> pyval \<Rightarrow> exn + pyval" where
  "float_div a b =
     (if num_of b = Some 0 then Inl ZeroDivisionError
      else if a = PNaN \<or> b = PNaN then Inr PNaN
      else if a = PInf \<or> a = PNegInf
        then (if b = PInf \<or> b = PNegInf then Inr PNaN
              else Inr (signed_inf (sign_bit a \<noteq> sign_bit b)))
      else if b = PInf \<or> b = PNegInf then Inr (signed_zero (sign_bit a \<noteq> sign_bit b))
      else
        (case (num_of a, num_of b) of
           (Some x, Some y) \<Rightarrow>
             if x = 0 then Inr (signed_zero (sign_bit a \<noteq> sign_bit b))
             else Inr (round_to_double (x / y))
         | _ \<Rightarrow> Inl TypeError))"

text \<open>
  True division \<^verbatim>\<open>a / b\<close>. Of two ints it is the double nearest to the exact
  quotient, and raises OverflowError when that is out of range. When a float is
  involved, both operands are made floats, the left one first, and divided as floats.
\<close>

definition py_truediv :: "pyval \<Rightarrow> pyval \<Rightarrow> exn + pyval" where
  "py_truediv a b =
     (if is_int a \<and> is_int b then
        (if int_of b = 0 then Inl ZeroDivisionError
         else if int_of a = 0 then Inr (signed_zero (int_of b < 0))
         else
           (case round_to_double (of_int (int_of a) / of_int (int_of b)) of
              PInf \<Rightarrow> Inl OverflowError
            | PNegInf \<Rightarrow> Inl OverflowError
            | d \<Rightarrow> Inr d))
      else if is_int_or_float a \<and> is_int_or_float b then
        (case py_float a of
           Inl e \<Rightarrow> Inl e
         | Inr x \<Rightarrow> (case py_float b of Inl e \<Rightarrow> Inl e | Inr y \<Rightarrow> float_div x y))
      else Inl TypeError)"

text \<open>
  \<^verbatim>\<open>math.floor(x)\<close>: an int; an infinity raises OverflowError and NaN raises
  ValueError.
\<close>

fun math_floor :: "pyval \<Rightarrow> exn + pyval" where
  "math_floor (PBool b) = Inr (PInt (if b then 1 else 0))"
| "math_floor (PInt i) = Inr (PInt i)"
| "math_floor (PFloat q) = Inr (PInt \<lfloor>q\<rfloor>)"
| "math_floor PNegZero = Inr (PInt 0)"
| "math_floor PInf = Inl OverflowError"
| "math_floor PNegInf = Inl OverflowError"
| "math_floor PNaN = Inl ValueError"
| "math_floor v = Inl TypeError"

text \<open>
  \<^verbatim>\<open>round(x, 2)\<close>. The exact value of a finite float is rounded to the nearest
  multiple of 1/100, a tie going to the even one, and the result is the double nearest
  to that decimal; a result of zero keeps the sign of \<open>x\<close>. Zeros, infinities and NaN
  round to themselves; an int (or bool) is returned as an int.
\<close>

definition round2 :: "rat \<Rightarrow> pyval" where
  "round2 x =
     (let r = of_int (round_half_even (x * 100)) / 100
      in if r = 0 then signed_zero (x < 0) else round_to_double r)"

fun py_round2 :: "pyval \<Rightarrow> exn + pyval" where
  "py_round2 (PFloat q) = Inr (round2 q)"
| "py_round2 PNegZero = Inr PNegZero"
| "py_round2 PInf = Inr PInf"
| "py_round2 PNegInf = Inr PNegInf"
| "py_round2 PNaN = Inr PNaN"
| "py_round2 (PInt i) = Inr (PInt i)"
| "py_round2 (PBool b) = Inr (PInt (if b then 1 else 0))"
| "py_round2 v = Inl TypeError"

text \<open>
  \<^verbatim>\<open>int(x)\<close>. Parsing a str is the interpreter's work and is a parameter here:
  \<open>str_int s\<close> is the int that \<^verbatim>\<open>int(s)\<close> returns, or \<open>None\<close> where it raises
  ValueError. A float is truncated towards zero.
\<close>

fun py_int :: "(string \<Rightarrow> int option) \<Rightarrow> pyval \<Rightarrow> exn + int" where
  "py_int str_int (PBool b) = Inr (if b then 1 else 0)"
| "py_int str_int (PInt i) = Inr i"
| "py_int str_int (PFloat q) = Inr (if 0 \<le> q then \<lfloor>q\<rfloor> else \<lceil>q\<rceil>)"
| "py_int str_int PNegZero = Inr 0"
| "py_int str_int PInf = Inl OverflowError"
| "py_int str_int PNegInf = Inl OverflowError"
| "py_int str_int PNaN = Inl ValueError"
| "py_int str_int (PStr s) = (case str_int s of Some i \<Rightarrow> Inr i | None \<Rightarrow> Inl ValueError)"
| "py_int str_int v = Inl TypeError"

section \<open>The built-in sum\<close>

text \<open>
  \<^verbatim>\<open>sum(xs)\<close> starts from the int 0. While the items are ints (or bools) the total is
  an exact int. From the first float on, the total is a float that the interpreter
  accumulates in double precision; how it rounds is the interpreter's business (CPython
  adds item by item, and since version 3.12 it also carries a compensation term), so the
  accumulation is a parameter: \<open>fs_enter\<close> starts it from the int total and the first
  float, \<open>fs_add\<close> adds one more number, \<open>fs_result\<close> is the float returned. Either
  step may raise (an int too large for a double). An item that is not a number raises
  TypeError when it is reached.
\<close>

record 's float_sum =
  fs_enter :: "int \<Rightarrow> pyval \<Rightarrow> exn + 's"
  fs_add :: "'s \<Rightarrow> pyval \<Rightarrow> exn + 's"
  fs_result :: "'s \<Rightarrow> pyval"

fun sum_floats :: "'s float_sum \<Rightarrow> 's \<Rightarrow> pyval list \<Rightarrow> exn + pyval" where
  "sum_floats fs s [] = Inr (fs_result fs s)"
| "sum_floats fs s (x # xs) =
     (if is_int_or_float x
      then (case fs_add fs s x of Inl e \<Rightarrow> Inl e | Inr s' \<Rightarrow> sum_floats fs s' xs)
      else Inl TypeError)"

fun sum_ints :: "'s float_sum \<Rightarrow> int \<Rightarrow> pyval list \<Rightarrow> exn + pyval" where
  "sum_ints fs i [] = Inr (PInt i)"
| "sum_ints fs i (x # xs) =
     (if is_int x then sum_ints fs (i + int_of x) xs
      else if is_float x
        then (case fs_enter fs i x of Inl e \<Rightarrow> Inl e | Inr s \<Rightarrow> sum_floats fs s xs)
      else Inl TypeError)"

definition py_sum :: "'s float_sum \<Rightarrow> pyval list \<Rightarrow> exn + pyval" where
  "py_sum fs xs = sum_ints fs 0 xs"

text \<open>
  The accumulation of CPython before 3.12: every addition is the IEEE sum of two
  doubles, rounded to nearest.
\<close>

definition float_add :: "pyval \<Rightarrow> pyval \<Rightarrow> pyval" where
  "float_add a b =
     (if a = PNaN \<or> b = PNaN then PNaN
      else if a = PInf then (if b = PNegInf then PNaN else PInf)
      else if a = PNegInf then (if b = PInf then PNaN else PNegInf)
      else if b = PInf \<or> b = PNegInf then b
      else
        (case (num_of a, num_of b) of
           (Some x, Some y) \<Rightarrow>
             if x + y = 0 then signed_zero (sign_bit a \<and> sign_bit b)
             else round_to_double (x + y)
         | _ \<Rightarrow> PNaN))"

definition plain_add :: "pyval \<Rightarrow> pyval \<Rightarrow> exn + pyval" where
  "plain_add acc x =
     (case py_float x of Inl e \<Rightarrow> Inl e | Inr y \<Rightarrow> Inr (float_add acc y))"

definition plain_float_sum :: "pyval float_sum" where
  "plain_float_sum =
     \<lparr>fs_enter = (\<lambda>i x. case py_float (PInt i) of Inl e \<Rightarrow> Inl e | Inr t \<Rightarrow> plain_add t x),
      fs_add = plain_add,
      fs_result = (\<lambda>acc. acc)\<rparr>"

section \<open>The HTTP request of a fetcher\<close>

text \<open>
  Every fetcher starts with the same three library calls, and each of them either
  raises or goes on: \<^verbatim>\<open>requests.get(url, timeout=3)\<close> (a transport failure or a
  timeout raises), \<^verbatim>\<open>resp.raise_for_status()\<close> (raises HTTPError, a
  RequestException) and \<^verbatim>\<open>resp.json()\<close> (raises a ValueError on a body that is not
  JSON). What the network answers is the input of the model.
\<close>

datatype response =
    Get_raises exn
  | Status_raises
  | Json_raises
  | Json pyval

fun http_json :: "response \<Rightarrow> exn + pyval" where
  "http_json (Get_raises e) = Inl e"
| "http_json Status_raises = Inl RequestException"
| "http_json Json_raises = Inl ValueError"
| "http_json (Json data) = Inr data"

section \<open>Data fetchers\<close>

text \<open>
  Each fetcher is \<^verbatim>\<open>try: ... except ...: log_exception(...) finally: return var\<close>.
  The \<open>_try\<close> function is the \<^verbatim>\<open>try\<close> block: it gives the value of the result
  variable when the block is left and the exception in flight, if any. The handlers only
  call \<^verbatim>\<open>log_exception\<close>, which does nothing while \<^verbatim>\<open>ENABLE_LOGGER\<close> is False, and
  the \<^verbatim>\<open>return\<close> inside \<^verbatim>\<open>finally\<close> returns the variable whatever happened.
\<close>

definition get_btc_price_try :: "response \<Rightarrow> pyval \<times> exn option" where
  "get_btc_price_try resp =
     (case http_json resp of
        Inl e \<Rightarrow> (PNone, Some e)
      | Inr data \<Rightarrow>
          (case data of
             PDict kvs \<Rightarrow>
               (case dict_get kvs ''bitcoin'' of
                  PDict btc_data \<Rightarrow>
                    (let price = dict_get btc_data ''usd''
                     in if \<not> is_int_or_float price then (price, Some ValueError)
                        else (price, None))
                | _ \<Rightarrow> (PNone, Some ValueError))
           | _ \<Rightarrow> (PNone, Some ValueError)))"

definition get_btc_price :: "response \<Rightarrow> pyval" where
  "get_btc_price resp = fst (get_btc_price_try resp)"

definition get_btc_ath_try :: "response \<Rightarrow> pyval \<times> exn option" where
  "get_btc_ath_try resp =
     (case http_json resp of
        Inl e \<Rightarrow> (PNone, Some e)
      | Inr data \<Rightarrow>
          (case data of
             PDict kvs \<Rightarrow>
               (case dict_get kvs ''market_data'' of
                  PDict market_data \<Rightarrow>
                    (case dict_get market_data ''ath'' of
                       PDict ath \<Rightarrow>
                         (let ath_usd = dict_get ath ''usd''
                          in if \<not> is_int_or_float ath_usd then (ath_usd, Some ValueError)
                             else (ath_usd, None))
                     | _ \<Rightarrow> (PNone, Some ValueError))
                | _ \<Rightarrow> (PNone, Some ValueError))
           | _ \<Rightarrow> (PNone, Some ValueError)))"

definition get_btc_ath :: "response \<Rightarrow> pyval" where
  "get_btc_ath resp = fst (get_btc_ath_try resp)"

text \<open>The list comprehension \<^verbatim>\<open>[item[1] for item in prices_raw]\<close>.\<close>

fun price_components :: "pyval list \<Rightarrow> exn + pyval list" where
  "price_components [] = Inr []"
| "price_components (item # items) =
     (case subscript_1 item of
        Inl e \<Rightarrow> Inl e
      | Inr p \<Rightarrow> (case price_components items of Inl e \<Rightarrow> Inl e | Inr ps \<Rightarrow> Inr (p # ps)))"

text \<open>
  The request parameters (\<^verbatim>\<open>from\<close> = now - 200 * 86400, \<^verbatim>\<open>to\<close> = now) select what
  the server answers; the answer is the input here. \<^verbatim>\<open>ma200\<close> is assigned the
  quotient before \<^verbatim>\<open>math.floor\<close> is applied to it.
\<close>

definition get_200_day_ma_try :: "'s float_sum \<Rightarrow> response \<Rightarrow> pyval \<times> exn option" where
  "get_200_day_ma_try fs resp =
     (case http_json resp of
        Inl e \<Rightarrow> (PNone, Some e)
      | Inr data \<Rightarrow>
          (case data of
             PDict kvs \<Rightarrow>
               (if map_of kvs ''prices'' = None then (PNone, Some ValueError)
                else
                  (case dict_get kvs ''prices'' of
                     PList prices_raw \<Rightarrow>
                       (if prices_raw = [] then (PNone, Some ValueError)
                        else
                          (case price_components prices_raw of
                             Inl e \<Rightarrow> (PNone, Some e)
                           | Inr prices \<Rightarrow>
                               (if prices = [] then (PNone, Some ValueError)
                                else
                                  (case py_sum fs prices of
                                     Inl e \<Rightarrow> (PNone, Some e)
                                   | Inr total_sum \<Rightarrow>
                                       (case py_truediv total_sum (PInt (int (length prices))) of
                                          Inl e \<Rightarrow> (PNone, Some e)
                                        | Inr ma200 \<Rightarrow>
                                            (case math_floor ma200 of
                                               Inl e \<Rightarrow> (ma200, Some e)
                                             | Inr ma200' \<Rightarrow> (ma200', None)))))))
                   | _ \<Rightarrow> (PNone, Some ValueError)))
           | _ \<Rightarrow> (PNone, Some ValueError)))"

definition get_200_day_ma :: "'s float_sum \<Rightarrow> response \<Rightarrow> pyval" where
  "get_200_day_ma fs resp = fst (get_200_day_ma_try fs resp)"

text \<open>
  The fear and greed fetcher has two result variables, \<^verbatim>\<open>value\<close> and \<^verbatim>\<open>label\<close>;
  \<^verbatim>\<open>label\<close> is assigned from the response before the checks that follow it.
\<close>

definition get_fear_and_greed_try ::
  "(string \<Rightarrow> int option) \<Rightarrow> response \<Rightarrow> (pyval \<times> pyval) \<times> exn option" where
  "get_fear_and_greed_try str_int resp =
     (case http_json resp of
        Inl e \<Rightarrow> ((PNone, PNone), Some e)
      | Inr data \<Rightarrow>
          (case data of
             PDict kvs \<Rightarrow>
               (case map_of kvs ''data'' of
                  None \<Rightarrow> ((PNone, PNone), Some ValueError)
                | Some fg_items \<Rightarrow>
                    (case fg_items of
                       PList (fg # rest) \<Rightarrow>
                         (case fg of
                            PDict fg_kvs \<Rightarrow>
                              (let value_raw = dict_get fg_kvs ''value'';
                                   label = dict_get fg_kvs ''value_classification''
                               in if value_raw = PNone \<or> label = PNone
                                  then ((PNone, label), Some ValueError)
                                  else
                                    (case py_int str_int value_raw of
                                       Inl e \<Rightarrow> ((PNone, label), Some e)
                                     | Inr i \<Rightarrow> ((PInt i, label), None)))
                          | _ \<Rightarrow> ((PNone, PNone), Some ValueError))
                     | _ \<Rightarrow> ((PNone, PNone), Some ValueError)))
           | _ \<Rightarrow> ((PNone, PNone), Some ValueError)))"

definition get_fear_and_greed :: "(string \<Rightarrow> int option) \<Rightarrow> response \<Rightarrow> pyval \<times> pyval" where
  "get_fear_and_greed str_int resp = fst (get_fear_and_greed_try str_int resp)"

text \<open>
  The fee fetcher starts from a dict of three \<^verbatim>\<open>None\<close> values and overwrites, key by
  key, the ones the response gives as a number. For a key it leaves alone it calls
  \<^verbatim>\<open>logging.warning\<close> with a message that names the key; the messages are collected
  in order. (The call is not behind \<^verbatim>\<open>ENABLE_LOGGER\<close>.)
\<close>

definition new_fees_init :: "(string \<times> pyval) list" where
  "new_fees_init = [(''fastestFee'', PNone), (''halfHourFee'', PNone), (''hourFee'', PNone)]"

definition fee_warning :: "string \<Rightarrow> string" where
  "fee_warning key =
     [CHR 0xE2, CHR 0x9A, CHR 0xA0, CHR 0xEF, CHR 0xB8, CHR 0x8F] @
     '' Missing or invalid value for '' @ [CHR 0x27] @ key @ [CHR 0x27] @ '' in fee data.''"

fun fee_loop ::
  "(string \<times> pyval) list \<Rightarrow> string list \<Rightarrow> (string \<times> pyval) list \<times> string list \<Rightarrow>
   (string \<times> pyval) list \<times> string list" where
  "fee_loop data [] (new_fees, warnings) = (new_fees, warnings)"
| "fee_loop data (key # keys) (new_fees, warnings) =
     (let v = dict_get data key
      in if is_int_or_float v
         then fee_loop data keys (AList.update key v new_fees, warnings)
         else fee_loop data keys (new_fees, warnings @ [fee_warning key]))"

definition get_transfer_fees_try ::
  "response \<Rightarrow> ((string \<times> pyval) list \<times> string list) \<times> exn option" where
  "get_transfer_fees_try resp =
     (case http_json resp of
        Inl e \<Rightarrow> ((new_fees_init, []), Some e)
      | Inr data \<Rightarrow>
          (case data of
             PDict kvs \<Rightarrow> (fee_loop kvs (map fst new_fees_init) (new_fees_init, []), None)
           | _ \<Rightarrow> ((new_fees_init, []), Some ValueError)))"

text \<open>What the fetcher returns, and the warnings it logs on the way.\<close>

definition get_transfer_fees :: "response \<Rightarrow> pyval" where
  "get_transfer_fees resp = PDict (fst (fst (get_transfer_fees_try resp)))"

definition get_transfer_fees_warnings :: "response \<Rightarrow> string list" where
  "get_transfer_fees_warnings resp = snd (fst (get_transfer_fees_try resp))"

section \<open>Derivation\<close>

text \<open>
  \<^verbatim>\<open>round(price / moving_average, 2) if price and moving_average else None\<close>
\<close>

definition calculate_mayer_index :: "pyval \<Rightarrow> pyval \<Rightarrow> exn + pyval" where
  "calculate_mayer_index price moving_average =
     (if truthy price \<and> truthy moving_average
      then (case py_truediv price moving_average of
              Inl e \<Rightarrow> Inl e
            | Inr r \<Rightarrow> py_round2 r)
      else Inr PNone)"

section \<open>Signal evaluator\<close>

definition MAYER_BUY_THRESHOLD :: rat where
  "MAYER_BUY_THRESHOLD = 1"

definition FEAR_GREED_BUY_THRESHOLD :: rat where
  "FEAR_GREED_BUY_THRESHOLD = 25"

definition FEE_TRANSFER_THRESHOLD :: rat where
  "FEE_TRANSFER_THRESHOLD = 15"

text \<open>
  The four advisory lines. Each starts with a newline; the sign after it is written by
  its UTF-8 bytes (U+2705; U+26A0 U+FE0F; U+2139 U+FE0F).
\<close>

definition BUY_SIGNAL_LINE :: string where
  "BUY_SIGNAL_LINE =
     [CHR 0x0A, CHR 0xE2, CHR 0x9C, CHR 0x85] @
     '' BUY SIGNAL: Conditions favorable for lump buy!''"

definition TRANSFER_SIGNAL_LINE :: string where
  "TRANSFER_SIGNAL_LINE =
     [CHR 0x0A, CHR 0xE2, CHR 0x9C, CHR 0x85] @
     '' TRANSFER SIGNAL: Conditions favorable for transfer on-chain!''"

definition MISSING_DATA_LINE :: string where
  "MISSING_DATA_LINE =
     [CHR 0x0A, CHR 0xE2, CHR 0x9A, CHR 0xA0, CHR 0xEF, CHR 0xB8, CHR 0x8F] @
     '' Failed to fetch some data.''"

definition NO_SIGNALS_LINE :: string where
  "NO_SIGNALS_LINE =
     [CHR 0x0A, CHR 0xE2, CHR 0x84, CHR 0xB9, CHR 0xEF, CHR 0xB8, CHR 0x8F] @
     '' No specific signals at this time.''"

text \<open>
  \<^verbatim>\<open>isinstance(v, (int, float)) and v < t\<close>, and the same with \<^verbatim>\<open><=\<close>, for a
  finite threshold \<open>t\<close>. A number is compared by its exact value; minus infinity is
  below every threshold, plus infinity and NaN are below none.
\<close>

definition number_below :: "pyval \<Rightarrow> rat \<Rightarrow> bool" where
  "number_below v t =
     (is_int_or_float v \<and>
      (v = PNegInf \<or> (case num_of v of Some x \<Rightarrow> x < t | None \<Rightarrow> False)))"

definition number_at_most :: "pyval \<Rightarrow> rat \<Rightarrow> bool" where
  "number_at_most v t =
     (is_int_or_float v \<and>
      (v = PNegInf \<or> (case num_of v of Some x \<Rightarrow> x \<le> t | None \<Rightarrow> False)))"

text \<open>\<^verbatim>\<open>any(x is None for x in [...])\<close>\<close>

definition missing_data :: "pyval list \<Rightarrow> bool" where
  "missing_data xs = list_ex (\<lambda>x. x = PNone) xs"

text \<open>\<^verbatim>\<open>fees.get('halfHourFee') if isinstance(fees, dict) else None\<close>\<close>

definition half_hour_fee_of :: "pyval \<Rightarrow> pyval" where
  "half_hour_fee_of fees = (case fees of PDict kvs \<Rightarrow> dict_get kvs ''halfHourFee'' | _ \<Rightarrow> PNone)"

text \<open>The conditions of the two signals, as the two \<^verbatim>\<open>if\<close> statements test them.\<close>

definition buy_signal :: "pyval \<Rightarrow> pyval \<Rightarrow> bool" where
  "buy_signal mayer fear_value =
     (number_below mayer MAYER_BUY_THRESHOLD \<and>
      number_at_most fear_value FEAR_GREED_BUY_THRESHOLD)"

definition transfer_signal :: "pyval \<Rightarrow> bool" where
  "transfer_signal half_hour_fee = number_at_most half_hour_fee FEE_TRANSFER_THRESHOLD"

text \<open>
  The evaluator, statement by statement: \<open>message\<close> and \<open>lines\<close> are the two
  variables it updates. \<open>signal_rules\<close> is the function up to and including the
  missing-data \<^verbatim>\<open>if\<close>; \<open>check_indexes\<close> adds the last \<^verbatim>\<open>if not message\<close>,
  which assigns the message instead of appending to it.
\<close>

definition signal_rules ::
  "pyval \<Rightarrow> pyval \<Rightarrow> pyval \<Rightarrow> pyval \<Rightarrow> pyval \<Rightarrow> pyval \<Rightarrow> string \<times> nat" where
  "signal_rules price btc_ath ma200 mayer fear_value fees =
     (let lines = 0;
          message = [];
          missing = missing_data [price, btc_ath, ma200, mayer, fear_value, fees];
          half_hour_fee = half_hour_fee_of fees;
          (message, lines) =
            (if buy_signal mayer fear_value
             then (message @ BUY_SIGNAL_LINE, lines + 1) else (message, lines));
          (message, lines) =
            (if transfer_signal half_hour_fee
             then (message @ TRANSFER_SIGNAL_LINE, lines + 1) else (message, lines));
          (message, lines) =
            (if missing
             then (message @ MISSING_DATA_LINE, lines + 1) else (message, lines))
      in (message, lines))"

definition check_indexes ::
  "pyval \<Rightarrow> pyval \<Rightarrow> pyval \<Rightarrow> pyval \<Rightarrow> pyval \<Rightarrow> pyval \<Rightarrow> string \<times> nat" where
  "check_indexes price btc_ath ma200 mayer fear_value fees =
     (let (message, lines) = signal_rules price btc_ath ma200 mayer fear_value fees
      in if message = [] then (NO_SIGNALS_LINE, lines + 1) else (message, lines))"

section \<open>Terminal renderer and main loop\<close>

text \<open>
  What the program does to the terminal, the log and the clock, in order:
  \<^verbatim>\<open>print(s)\<close>, \<^verbatim>\<open>sys.stdout.write(s)\<close>, \<^verbatim>\<open>logging.warning(s)\<close> and
  \<^verbatim>\<open>time.sleep(n)\<close>. Logging is never configured while \<^verbatim>\<open>ENABLE_LOGGER\<close> is False,
  so a warning goes to the standard error stream.
\<close>

datatype effect = Print string | Write string | Warning string | Sleep nat

text \<open>Cursor up one line (ESC [ F), then clear that line (ESC [ K).\<close>

definition cursor_up :: string where
  "cursor_up = [CHR 0x1B] @ ''[F''"

definition clear_line :: string where
  "clear_line = [CHR 0x1B] @ ''[K''"

definition clear_terminal_lines :: "nat \<Rightarrow> effect list" where
  "clear_terminal_lines n = concat (replicate n [Write cursor_up, Write clear_line])"

definition check_print :: "pyval \<Rightarrow> pyval" where
  "check_print v = (if v = PNone then PStr ''--'' else v)"

text \<open>The mark that starts each metric line (U+1F538).\<close>

definition bullet :: string where
  "bullet = [CHR 0xF0, CHR 0x9F, CHR 0x94, CHR 0xB8]"

text \<open>
  The six metric lines. \<open>fmt\<close> is how an f-string prints a value (the interpreter's
  \<^verbatim>\<open>format\<close>); it is a parameter. The fee line reads the three fees with
  \<^verbatim>\<open>fees[key]\<close>, which raises on a missing key.
\<close>

definition metric_lines ::
  "(pyval \<Rightarrow> string) \<Rightarrow> pyval \<Rightarrow> pyval \<Rightarrow> pyval \<Rightarrow> pyval \<Rightarrow> pyval \<Rightarrow> pyval \<Rightarrow> effect list" where
  "metric_lines fmt price btc_ath ma200 mayer fear_value fear_label =
     [Print (bullet @ '' BTC Price:       $'' @ fmt (check_print price)),
      Print (bullet @ '' BTC ATH:         $'' @ fmt (check_print btc_ath)),
      Print (bullet @ '' 200-day MA:      $'' @ fmt (check_print ma200)),
      Print (bullet @ '' Mayer Multiple:  '' @ fmt (check_print mayer)),
      Print (bullet @ '' Fear & Greed:    '' @ fmt (check_print fear_value) @
             '' ('' @ fmt (check_print fear_label) @ '')'')]"

definition fee_line :: "(pyval \<Rightarrow> string) \<Rightarrow> pyval \<Rightarrow> exn + effect" where
  "fee_line fmt fees =
     (case subscript_key fees ''fastestFee'' of
        Inl e \<Rightarrow> Inl e
      | Inr fast \<Rightarrow>
          (case subscript_key fees ''halfHourFee'' of
             Inl e \<Rightarrow> Inl e
           | Inr normal \<Rightarrow>
               (case subscript_key fees ''hourFee'' of
                  Inl e \<Rightarrow> Inl e
                | Inr cheap \<Rightarrow>
                    Inr (Print (bullet @ '' Fees (sat/vB):   [Fast] '' @ fmt (check_print fast) @
                                '', [Normal] '' @ fmt (check_print normal) @
                                '', [Cheap] '' @ fmt (check_print cheap))))))"

text \<open>
  One iteration of \<^verbatim>\<open>while True\<close>, given what the five requests of the cycle
  answer: the effects it has, and the exception that leaves the loop, if one is raised.
\<close>

definition loop_body ::
  "(pyval \<Rightarrow> string) \<Rightarrow> (string \<Rightarrow> int option) \<Rightarrow> 's float_sum \<Rightarrow>
   response \<Rightarrow> response \<Rightarrow> response \<Rightarrow> response \<Rightarrow> response \<Rightarrow> effect list \<times> exn option" where
  "loop_body fmt str_int fs r_price r_ath r_ma r_fg r_fees =
     (let out = [Print ''Fetching data...''];
          price = get_btc_price r_price;
          btc_ath = get_btc_ath r_ath;
          ma200 = get_200_day_ma fs r_ma
      in case calculate_mayer_index price ma200 of
           Inl e \<Rightarrow> (out, Some e)
         | Inr mayer \<Rightarrow>
             (let (fear_value, fear_label) = get_fear_and_greed str_int r_fg;
                  fees = get_transfer_fees r_fees;
                  out = out @ map Warning (get_transfer_fees_warnings r_fees);
                  out = out @ clear_terminal_lines 1 @
                        metric_lines fmt price btc_ath ma200 mayer fear_value fear_label
              in case fee_line fmt fees of
                   Inl e \<Rightarrow> (out, Some e)
                 | Inr fee_print \<Rightarrow>
                     (let (warn_message, lines) =
                            check_indexes price btc_ath ma200 mayer fear_value fees
                      in (out @ [fee_print, Print warn_message, Sleep 1800] @
                          clear_terminal_lines (lines + 7), None))))"

section \<open>Notions used to state the properties\<close>




section \<open>Auxiliary facts\<close>

lemma dict_get_simps:
  "dict_get [] k = PNone"
  "dict_get ((k', v) # kvs) k = (if k' = k then v else dict_get kvs k)"
  by (simp_all add: dict_get_def)

subsection \<open>Signal evaluator\<close>

lemma signal_rules_eq:
  "signal_rules price btc_ath ma200 mayer fear_value fees =
     ((if buy_signal mayer fear_value then BUY_SIGNAL_LINE else []) @
      (if transfer_signal (half_hour_fee_of fees) then TRANSFER_SIGNAL_LINE else []) @
      (if missing_data [price, btc_ath, ma200, mayer, fear_value, fees]
       then MISSING_DATA_LINE else []),
      (if buy_signal mayer fear_value then 1 else 0) +
      (if transfer_signal (half_hour_fee_of fees) then 1 else 0) +
      (if missing_data [price, btc_ath, ma200, mayer, fear_value, fees] then 1 else 0))"
  by (simp add: signal_rules_def)

lemma lines_nonempty:
  "BUY_SIGNAL_LINE \<noteq> []" "TRANSFER_SIGNAL_LINE \<noteq> []"
  "MISSING_DATA_LINE \<noteq> []" "NO_SIGNALS_LINE \<noteq> []"
  by (simp_all add: BUY_SIGNAL_LINE_def TRANSFER_SIGNAL_LINE_def MISSING_DATA_LINE_def
      NO_SIGNALS_LINE_def)

lemma check_indexes_message:
  "fst (check_indexes price btc_ath ma200 mayer fear_value fees) =
     (if \<not> buy_signal mayer fear_value \<and> \<not> transfer_signal (half_hour_fee_of fees) \<and>
         \<not> missing_data [price, btc_ath, ma200, mayer, fear_value, fees]
      then NO_SIGNALS_LINE
      else (if buy_signal mayer fear_value then BUY_SIGNAL_LINE else []) @
           (if transfer_signal (half_hour_fee_of fees) then TRANSFER_SIGNAL_LINE else []) @
           (if missing_data [price, btc_ath, ma200, mayer, fear_value, fees]
            then MISSING_DATA_LINE else []))"
  by (simp add: check_indexes_def signal_rules_eq lines_nonempty)

lemma B_in_buy: "CHR ''B'' \<in> set BUY_SIGNAL_LINE"
  by (simp add: BUY_SIGNAL_LINE_def)

lemma B_not_in_others:
  "CHR ''B'' \<notin> set TRANSFER_SIGNAL_LINE" "CHR ''B'' \<notin> set MISSING_DATA_LINE"
  "CHR ''B'' \<notin> set NO_SIGNALS_LINE"
  by (simp_all add: TRANSFER_SIGNAL_LINE_def MISSING_DATA_LINE_def NO_SIGNALS_LINE_def)

lemma buy_line_present_iff:
  "sublist BUY_SIGNAL_LINE (fst (check_indexes price btc_ath ma200 mayer fear_value fees))
     \<longleftrightarrow> buy_signal mayer fear_value"
proof
  assume "sublist BUY_SIGNAL_LINE (fst (check_indexes price btc_ath ma200 mayer fear_value fees))"
  then have "CHR ''B'' \<in> set (fst (check_indexes price btc_ath ma200 mayer fear_value fees))"
    using B_in_buy set_mono_sublist by blast
  then show "buy_signal mayer fear_value"
    using B_not_in_others by (auto simp add: check_indexes_message split: if_splits)
next
  assume "buy_signal mayer fear_value"
  then show "sublist BUY_SIGNAL_LINE (fst (check_indexes price btc_ath ma200 mayer fear_value fees))"
    by (simp add: check_indexes_message sublist_append_rightI)
qed


lemma T_in_transfer: "CHR ''T'' \<in> set TRANSFER_SIGNAL_LINE"
  by (simp add: TRANSFER_SIGNAL_LINE_def)

lemma T_not_in_others:
  "CHR ''T'' \<notin> set BUY_SIGNAL_LINE" "CHR ''T'' \<notin> set MISSING_DATA_LINE"
  "CHR ''T'' \<notin> set NO_SIGNALS_LINE"
  by (simp_all add: BUY_SIGNAL_LINE_def MISSING_DATA_LINE_def NO_SIGNALS_LINE_def)

lemma transfer_line_present_iff:
  "sublist TRANSFER_SIGNAL_LINE (fst (check_indexes price btc_ath ma200 mayer fear_value fees))
     \<longleftrightarrow> transfer_signal (half_hour_fee_of fees)"
proof
  assume "sublist TRANSFER_SIGNAL_LINE
            (fst (check_indexes price btc_ath ma200 mayer fear_value fees))"
  then have "CHR ''T'' \<in> set (fst (check_indexes price btc_ath ma200 mayer fear_value fees))"
    using T_in_transfer set_mono_sublist by blast
  then show "transfer_signal (half_hour_fee_of fees)"
    using T_not_in_others by (auto simp add: check_indexes_message split: if_splits)
next
  assume "transfer_signal (half_hour_fee_of fees)"
  then show "sublist TRANSFER_SIGNAL_LINE
               (fst (check_indexes price btc_ath ma200 mayer fear_value fees))"
    by (auto simp add: check_indexes_message intro: sublist_appendI)
qed

lemma info_byte_in_no_signals: "CHR 0x84 \<in> set NO_SIGNALS_LINE"
  by (simp add: NO_SIGNALS_LINE_def)

lemma info_byte_not_in_others:
  "CHR 0x84 \<notin> set BUY_SIGNAL_LINE" "CHR 0x84 \<notin> set TRANSFER_SIGNAL_LINE"
  "CHR 0x84 \<notin> set MISSING_DATA_LINE"
  by (simp_all add: BUY_SIGNAL_LINE_def TRANSFER_SIGNAL_LINE_def MISSING_DATA_LINE_def)

lemma no_signals_line_present_iff:
  "sublist NO_SIGNALS_LINE (fst (check_indexes price btc_ath ma200 mayer fear_value fees))
     \<longleftrightarrow> fst (signal_rules price btc_ath ma200 mayer fear_value fees) = []"
proof
  assume "sublist NO_SIGNALS_LINE (fst (check_indexes price btc_ath ma200 mayer fear_value fees))"
  then have "CHR 0x84 \<in> set (fst (check_indexes price btc_ath ma200 mayer fear_value fees))"
    using info_byte_in_no_signals set_mono_sublist by blast
  then show "fst (signal_rules price btc_ath ma200 mayer fear_value fees) = []"
    using info_byte_not_in_others
    by (auto simp add: check_indexes_message signal_rules_eq split: if_splits)
next
  assume "fst (signal_rules price btc_ath ma200 mayer fear_value fees) = []"
  then show "sublist NO_SIGNALS_LINE
               (fst (check_indexes price btc_ath ma200 mayer fear_value fees))"
    by (cases "signal_rules price btc_ath ma200 mayer fear_value fees")
      (simp add: check_indexes_def)
qed

lemma num_of_is_number: "num_of v = Some x \<Longrightarrow> is_int_or_float v"
  by (cases v) simp_all

lemma number_below_num: "num_of v = Some x \<Longrightarrow> number_below v t \<longleftrightarrow> x < t"
  by (cases v) (simp_all add: number_below_def)

lemma number_at_most_num: "num_of v = Some x \<Longrightarrow> number_at_most v t \<longleftrightarrow> x \<le> t"
  by (cases v) (simp_all add: number_at_most_def)

text \<open>
  Claim C2, as the code has it. The message is the concatenation, in this order, of the
  buy-signal line (when its thresholds are met), the transfer-signal line (when its
  threshold is met) and the missing-data warning (when any of the six inputs is
  \<^verbatim>\<open>None\<close>), or the "no signals" line when none of the three applies. The warning
  comes last, not first, and suppresses neither signal line.
\<close>

theorem check_indexes_line_order:
  "fst (check_indexes price btc_ath ma200 mayer fear_value fees) =
     (if buy_signal mayer fear_value then BUY_SIGNAL_LINE else []) @
     (if transfer_signal (half_hour_fee_of fees) then TRANSFER_SIGNAL_LINE else []) @
     (if missing_data [price, btc_ath, ma200, mayer, fear_value, fees]
      then MISSING_DATA_LINE else []) @
     (if \<not> buy_signal mayer fear_value \<and> \<not> transfer_signal (half_hour_fee_of fees) \<and>
         \<not> missing_data [price, btc_ath, ma200, mayer, fear_value, fees]
      then NO_SIGNALS_LINE else [])"
  by (simp add: check_indexes_message)

lemmas signal_defs = buy_signal_def transfer_signal_def half_hour_fee_of_def missing_data_def
  number_below_def number_at_most_def MAYER_BUY_THRESHOLD_def FEAR_GREED_BUY_THRESHOLD_def
  FEE_TRANSFER_THRESHOLD_def dict_get_simps

text \<open>
  With the all-time high missing, a Mayer multiple of 0.8, a fear value of 20 and a
  half-hour fee of 10, all three lines are there, the warning last.
\<close>

theorem check_indexes_line_order_witness:
  "fst (check_indexes (PInt 40000) PNone (PInt 50000) (PFloat (4 / 5)) (PInt 20)
         (PDict [(''fastestFee'', PInt 30), (''halfHourFee'', PInt 10), (''hourFee'', PInt 5)]))
     = BUY_SIGNAL_LINE @ TRANSFER_SIGNAL_LINE @ MISSING_DATA_LINE"
  using check_indexes_line_order [where price = "PInt 40000" and btc_ath = PNone
      and ?ma200.0 = "PInt 50000" and mayer = "PFloat (4 / 5)" and fear_value = "PInt 20"
      and fees = "PDict [(''fastestFee'', PInt 30), (''halfHourFee'', PInt 10),
                         (''hourFee'', PInt 5)]"]
  by (simp add: signal_defs)

text \<open>
  Claim C2 as stated puts the warning first. With the all-time high missing and the buy
  thresholds met (half-hour fee 20), the message is the buy-signal line followed by the
  warning, which is not the warning followed by the buy-signal line.
\<close>

theorem warning_first_counterexample:
  "fst (check_indexes (PInt 40000) PNone (PInt 50000) (PFloat (4 / 5)) (PInt 20)
         (PDict [(''fastestFee'', PInt 30), (''halfHourFee'', PInt 20), (''hourFee'', PInt 5)]))
     = BUY_SIGNAL_LINE @ MISSING_DATA_LINE \<and>
   BUY_SIGNAL_LINE @ MISSING_DATA_LINE \<noteq> MISSING_DATA_LINE @ BUY_SIGNAL_LINE"
  by (simp add: check_indexes_message signal_defs)
    (simp add: BUY_SIGNAL_LINE_def MISSING_DATA_LINE_def)

text \<open>
  Claim C4. The "no signals" line is in the returned message exactly when the message
  is still empty after the three rules. When all six inputs are present and no
  threshold is met, the result is that single line with count 1; when an input is
  missing and no threshold is met, the result is the missing-data warning alone, with
  count 1, and the "no signals" line is not in it.
\<close>

theorem no_signals_line_iff:
  "(sublist NO_SIGNALS_LINE (fst (check_indexes price btc_ath ma200 mayer fear_value fees))
      \<longleftrightarrow> fst (signal_rules price btc_ath ma200 mayer fear_value fees) = []) \<and>
   (\<not> missing_data [price, btc_ath, ma200, mayer, fear_value, fees] \<and>
    \<not> buy_signal mayer fear_value \<and> \<not> transfer_signal (half_hour_fee_of fees)
      \<longrightarrow> check_indexes price btc_ath ma200 mayer fear_value fees = (NO_SIGNALS_LINE, 1)) \<and>
   (missing_data [price, btc_ath, ma200, mayer, fear_value, fees] \<and>
    \<not> buy_signal mayer fear_value \<and> \<not> transfer_signal (half_hour_fee_of fees)
      \<longrightarrow> check_indexes price btc_ath ma200 mayer fear_value fees = (MISSING_DATA_LINE, 1) \<and>
          \<not> sublist NO_SIGNALS_LINE
              (fst (check_indexes price btc_ath ma200 mayer fear_value fees)))"
proof (intro conjI impI)
  show "sublist NO_SIGNALS_LINE (fst (check_indexes price btc_ath ma200 mayer fear_value fees))
      \<longleftrightarrow> fst (signal_rules price btc_ath ma200 mayer fear_value fees) = []"
    by (rule no_signals_line_present_iff)
next
  assume "\<not> missing_data [price, btc_ath, ma200, mayer, fear_value, fees] \<and>
    \<not> buy_signal mayer fear_value \<and> \<not> transfer_signal (half_hour_fee_of fees)"
  then show "check_indexes price btc_ath ma200 mayer fear_value fees = (NO_SIGNALS_LINE, 1)"
    by (simp add: check_indexes_def signal_rules_eq)
next
  assume a: "missing_data [price, btc_ath, ma200, mayer, fear_value, fees] \<and>
    \<not> buy_signal mayer fear_value \<and> \<not> transfer_signal (half_hour_fee_of fees)"
  then show "check_indexes price btc_ath ma200 mayer fear_value fees = (MISSING_DATA_LINE, 1)"
    by (simp add: check_indexes_def signal_rules_eq lines_nonempty)
  from a show "\<not> sublist NO_SIGNALS_LINE
              (fst (check_indexes price btc_ath ma200 mayer fear_value fees))"
    by (simp add: no_signals_line_present_iff signal_rules_eq lines_nonempty)
qed

text \<open>
  A Mayer multiple of 4/3, a fear value of 60 and a half-hour fee of 20 meet no
  threshold: all present, "no signals"; the all-time high missing, the warning.
\<close>

theorem no_signals_line_iff_witness:
  "check_indexes (PInt 40000) (PInt 100000) (PInt 30000) (PFloat (4 / 3)) (PInt 60)
     (PDict [(''fastestFee'', PInt 30), (''halfHourFee'', PInt 20), (''hourFee'', PInt 18)])
     = (NO_SIGNALS_LINE, 1) \<and>
   check_indexes (PInt 40000) PNone (PInt 30000) (PFloat (4 / 3)) (PInt 60)
     (PDict [(''fastestFee'', PInt 30), (''halfHourFee'', PInt 20), (''hourFee'', PInt 18)])
     = (MISSING_DATA_LINE, 1)"
  using no_signals_line_iff [of "PInt 40000" "PInt 100000" "PInt 30000" "PFloat (4 / 3)" "PInt 60"
      "PDict [(''fastestFee'', PInt 30), (''halfHourFee'', PInt 20), (''hourFee'', PInt 18)]"]
    no_signals_line_iff [of "PInt 40000" PNone "PInt 30000" "PFloat (4 / 3)" "PInt 60"
      "PDict [(''fastestFee'', PInt 30), (''halfHourFee'', PInt 20), (''hourFee'', PInt 18)]"]
  by (simp add: signal_defs)

text \<open>
  Claim C7. When the Mayer multiple and the fear value are numbers \<open>m\<close> and \<open>f\<close>,
  the buy-signal line is in the message if and only if \<open>m < 1.0\<close> and \<open>f \<le> 25\<close>.
\<close>

theorem buy_signal_iff:
  assumes "num_of mayer = Some m" and "num_of fear_value = Some f"
  shows "sublist BUY_SIGNAL_LINE (fst (check_indexes price btc_ath ma200 mayer fear_value fees))
           \<longleftrightarrow> m < 1 \<and> f \<le> 25"
  using assms
  by (simp add: buy_line_present_iff buy_signal_def number_below_num number_at_most_num
      MAYER_BUY_THRESHOLD_def FEAR_GREED_BUY_THRESHOLD_def)

text \<open>Mayer 0.8 with fear 20 gives the buy-signal line; Mayer 1.2 with fear 20 does not.\<close>

theorem buy_signal_iff_witness:
  "sublist BUY_SIGNAL_LINE
     (fst (check_indexes (PInt 40000) (PInt 100000) (PInt 50000) (PFloat (4 / 5)) (PInt 20)
            (PDict [(''fastestFee'', PInt 30), (''halfHourFee'', PInt 20), (''hourFee'', PInt 18)]))) \<and>
   \<not> sublist BUY_SIGNAL_LINE
     (fst (check_indexes (PInt 60000) (PInt 100000) (PInt 50000) (PFloat (6 / 5)) (PInt 20)
            (PDict [(''fastestFee'', PInt 30), (''halfHourFee'', PInt 20), (''hourFee'', PInt 18)])))"
  using buy_signal_iff [of "PFloat (4 / 5)" "4 / 5" "PInt 20" 20 "PInt 40000" "PInt 100000"
      "PInt 50000"
      "PDict [(''fastestFee'', PInt 30), (''halfHourFee'', PInt 20), (''hourFee'', PInt 18)]"]
    buy_signal_iff [of "PFloat (6 / 5)" "6 / 5" "PInt 20" 20 "PInt 60000" "PInt 100000"
      "PInt 50000"
      "PDict [(''fastestFee'', PInt 30), (''halfHourFee'', PInt 20), (''hourFee'', PInt 18)]"]
  by simp

text \<open>
  Claim C8. When the fees are a dict whose half-hour fee is a number \<open>h\<close>, the
  transfer-signal line is in the message if and only if \<open>h \<le> 15\<close>.
\<close>

theorem transfer_signal_iff:
  assumes "fees = PDict kvs" and "num_of (dict_get kvs ''halfHourFee'') = Some h"
  shows "sublist TRANSFER_SIGNAL_LINE
           (fst (check_indexes price btc_ath ma200 mayer fear_value fees)) \<longleftrightarrow> h \<le> 15"
  using assms
  by (simp add: transfer_line_present_iff transfer_signal_def half_hour_fee_of_def
      number_at_most_num FEE_TRANSFER_THRESHOLD_def)

text \<open>A half-hour fee of 10 gives the transfer-signal line; a fee of 20 does not.\<close>

theorem transfer_signal_iff_witness:
  "sublist TRANSFER_SIGNAL_LINE
     (fst (check_indexes (PInt 40000) (PInt 100000) (PInt 50000) (PFloat (4 / 5)) (PInt 20)
            (PDict [(''fastestFee'', PInt 30), (''halfHourFee'', PInt 10), (''hourFee'', PInt 8)]))) \<and>
   \<not> sublist TRANSFER_SIGNAL_LINE
     (fst (check_indexes (PInt 40000) (PInt 100000) (PInt 50000) (PFloat (4 / 5)) (PInt 20)
            (PDict [(''fastestFee'', PInt 30), (''halfHourFee'', PInt 20), (''hourFee'', PInt 18)])))"
  using transfer_signal_iff [of
      "PDict [(''fastestFee'', PInt 30), (''halfHourFee'', PInt 10), (''hourFee'', PInt 8)]"
      "[(''fastestFee'', PInt 30), (''halfHourFee'', PInt 10), (''hourFee'', PInt 8)]" 10
      "PInt 40000" "PInt 100000" "PInt 50000" "PFloat (4 / 5)" "PInt 20"]
    transfer_signal_iff [of
      "PDict [(''fastestFee'', PInt 30), (''halfHourFee'', PInt 20), (''hourFee'', PInt 18)]"
      "[(''fastestFee'', PInt 30), (''halfHourFee'', PInt 20), (''hourFee'', PInt 18)]" 20
      "PInt 40000" "PInt 100000" "PInt 50000" "PFloat (4 / 5)" "PInt 20"]
  by (simp add: dict_get_simps)

subsection \<open>Fee fetcher\<close>

lemma get_transfer_fees_Json_dict:
  "get_transfer_fees (Json (PDict kvs)) =
     PDict [(''fastestFee'',
              if is_int_or_float (dict_get kvs ''fastestFee'')
              then dict_get kvs ''fastestFee'' else PNone),
            (''halfHourFee'',
              if is_int_or_float (dict_get kvs ''halfHourFee'')
              then dict_get kvs ''halfHourFee'' else PNone),
            (''hourFee'',
              if is_int_or_float (dict_get kvs ''hourFee'')
              then dict_get kvs ''hourFee'' else PNone)]"
  by (simp add: get_transfer_fees_def get_transfer_fees_try_def new_fees_init_def Let_def)

lemma get_transfer_fees_failure:
  "(\<forall>kvs. resp \<noteq> Json (PDict kvs)) \<Longrightarrow> get_transfer_fees resp = PDict new_fees_init"
  by (cases resp) (auto simp add: get_transfer_fees_def get_transfer_fees_try_def
      split: pyval.splits)

lemma get_transfer_fees_shape:
  "\<exists>fast normal cheap.
     get_transfer_fees resp =
       PDict [(''fastestFee'', fast), (''halfHourFee'', normal), (''hourFee'', cheap)] \<and>
     (fast = PNone \<or> is_int_or_float fast) \<and>
     (normal = PNone \<or> is_int_or_float normal) \<and>
     (cheap = PNone \<or> is_int_or_float cheap)"
proof (cases "\<exists>kvs. resp = Json (PDict kvs)")
  case True
  then obtain kvs where "resp = Json (PDict kvs)" by blast
  then show ?thesis
    by (simp add: get_transfer_fees_Json_dict)
next
  case False
  then have "get_transfer_fees resp = PDict new_fees_init"
    by (simp add: get_transfer_fees_failure)
  then show ?thesis
    by (simp add: new_fees_init_def)
qed

lemma fee_line_ok: "\<exists>p. fee_line fmt (get_transfer_fees resp) = Inr p"
proof -
  obtain fast normal cheap where
    "get_transfer_fees resp =
       PDict [(''fastestFee'', fast), (''halfHourFee'', normal), (''hourFee'', cheap)]"
    using get_transfer_fees_shape by blast
  then show ?thesis
    by (simp add: fee_line_def)
qed

text \<open>
  Claim C6. On a response that is a JSON object, each of the three fees is taken from
  its own field: the field's value when it is a number, \<^verbatim>\<open>None\<close> when the field is
  missing or not a number, whatever the other two fields hold.
\<close>

theorem fee_fields_validated_independently:
  "get_transfer_fees (Json (PDict kvs)) =
     PDict (map (\<lambda>key. (key, if is_int_or_float (dict_get kvs key)
                               then dict_get kvs key else PNone))
                [''fastestFee'', ''halfHourFee'', ''hourFee''])"
  by (simp add: get_transfer_fees_Json_dict)

text \<open>
  A response without \<^verbatim>\<open>hourFee\<close>: that fee is \<^verbatim>\<open>None\<close>, the other two are
  populated.
\<close>

theorem fee_fields_validated_independently_witness:
  "get_transfer_fees (Json (PDict [(''fastestFee'', PInt 30), (''halfHourFee'', PInt 20)])) =
     PDict [(''fastestFee'', PInt 30), (''halfHourFee'', PInt 20), (''hourFee'', PNone)]"
  using fee_fields_validated_independently
    [of "[(''fastestFee'', PInt 30), (''halfHourFee'', PInt 20)]"]
  by (simp add: dict_get_simps)

text \<open>
  Claim C10. Whatever the request answers, the fee fetcher returns a dict with exactly
  the keys \<^verbatim>\<open>fastestFee\<close>, \<^verbatim>\<open>halfHourFee\<close> and \<^verbatim>\<open>hourFee\<close>, each value a number
  or \<^verbatim>\<open>None\<close>; when the request fails (transport, status, JSON, or a body that is
  not an object) all three values are \<^verbatim>\<open>None\<close>. So \<^verbatim>\<open>fees[key]\<close> succeeds for the
  three keys, the fee line of the renderer is printed, the result is not \<^verbatim>\<open>None\<close>,
  and it adds nothing to the evaluator's missing-data check.
\<close>

theorem fees_always_three_keys:
  "(\<exists>fast normal cheap.
      get_transfer_fees resp =
        PDict [(''fastestFee'', fast), (''halfHourFee'', normal), (''hourFee'', cheap)] \<and>
      (fast = PNone \<or> is_int_or_float fast) \<and>
      (normal = PNone \<or> is_int_or_float normal) \<and>
      (cheap = PNone \<or> is_int_or_float cheap)) \<and>
   ((\<forall>kvs. resp \<noteq> Json (PDict kvs)) \<longrightarrow>
      get_transfer_fees resp =
        PDict [(''fastestFee'', PNone), (''halfHourFee'', PNone), (''hourFee'', PNone)]) \<and>
   (\<forall>key \<in> {''fastestFee'', ''halfHourFee'', ''hourFee''}.
      \<exists>v. subscript_key (get_transfer_fees resp) key = Inr v) \<and>
   (\<exists>p. fee_line fmt (get_transfer_fees resp) = Inr p) \<and>
   get_transfer_fees resp \<noteq> PNone \<and>
   missing_data [price, btc_ath, ma200, mayer, fear_value, get_transfer_fees resp] =
     missing_data [price, btc_ath, ma200, mayer, fear_value]"
proof -
  obtain fast normal cheap where shape:
    "get_transfer_fees resp =
       PDict [(''fastestFee'', fast), (''halfHourFee'', normal), (''hourFee'', cheap)]"
    and vals: "fast = PNone \<or> is_int_or_float fast" "normal = PNone \<or> is_int_or_float normal"
      "cheap = PNone \<or> is_int_or_float cheap"
    using get_transfer_fees_shape by blast
  have failure: "(\<forall>kvs. resp \<noteq> Json (PDict kvs)) \<longrightarrow>
      get_transfer_fees resp =
        PDict [(''fastestFee'', PNone), (''halfHourFee'', PNone), (''hourFee'', PNone)]"
    using get_transfer_fees_failure [of resp] by (simp add: new_fees_init_def)
  have lookups: "\<forall>key \<in> {''fastestFee'', ''halfHourFee'', ''hourFee''}.
      \<exists>v. subscript_key (get_transfer_fees resp) key = Inr v"
    by (simp add: shape)
  have missing: "missing_data [price, btc_ath, ma200, mayer, fear_value, get_transfer_fees resp] =
     missing_data [price, btc_ath, ma200, mayer, fear_value]"
    by (simp add: shape missing_data_def)
  from shape vals failure lookups missing fee_line_ok [of fmt resp] show ?thesis
    by simp
qed

text \<open>
  A request that fails with a non-2xx status: three \<^verbatim>\<open>None\<close> values under the three
  keys, and the lookup of \<^verbatim>\<open>halfHourFee\<close> succeeds.
\<close>

theorem fees_always_three_keys_witness:
  "get_transfer_fees Status_raises =
     PDict [(''fastestFee'', PNone), (''halfHourFee'', PNone), (''hourFee'', PNone)] \<and>
   subscript_key (get_transfer_fees Status_raises) ''halfHourFee'' = Inr PNone"
proof -
  have "\<forall>kvs. Status_raises \<noteq> Json (PDict kvs)"
    by simp
  then have "get_transfer_fees Status_raises =
     PDict [(''fastestFee'', PNone), (''halfHourFee'', PNone), (''hourFee'', PNone)]"
    using fees_always_three_keys [of Status_raises] by blast
  then show ?thesis
    by simp
qed


subsection \<open>Rounding to a double\<close>

lemma bitlen_powi_bounds:
  assumes "0 < n"
  shows "(2::rat) powi (bitlen n - 1) \<le> of_int n" and "of_int n < (2::rat) powi bitlen n"
proof -
  from assms have b: "1 \<le> bitlen n"
    by (auto simp add: bitlen_alt_def)
  from bitlen_bounds [OF assms] have lo: "2 ^ nat (bitlen n - 1) \<le> n" and hi: "n < 2 ^ nat (bitlen n)"
    by simp_all
  from lo have "(of_int (2 ^ nat (bitlen n - 1)) :: rat) \<le> of_int n"
    by (simp only: of_int_le_iff)
  with b show "(2::rat) powi (bitlen n - 1) \<le> of_int n"
    by (simp add: power_int_def)
  from hi have "(of_int n :: rat) < of_int (2 ^ nat (bitlen n))"
    by (simp only: of_int_less_iff)
  with b show "of_int n < (2::rat) powi bitlen n"
    by (simp add: power_int_def)
qed

lemma binade_bounds:
  assumes "0 < a"
  shows "2 powi binade a \<le> a" and "a < 2 powi (binade a + 1)"
proof -
  obtain n d where q: "quotient_of a = (n, d)"
    by (cases "quotient_of a")
  then have d: "0 < d" and a: "a = of_int n / of_int d"
    using quotient_of_denom_pos quotient_of_div by blast+
  with assms have n: "0 < n"
    by (simp add: zero_less_divide_iff)
  define k where "k = bitlen n - bitlen d"
  note bn = bitlen_powi_bounds [OF n] and bd = bitlen_powi_bounds [OF d]
  have dpos: "(0::rat) < of_int d"
    using d by simp
  have "a < 2 powi bitlen n / 2 powi (bitlen d - 1)"
  proof -
    have "a < 2 powi bitlen n / of_int d"
      unfolding a using bn(2) dpos by (simp add: divide_strict_right_mono)
    also have "\<dots> \<le> 2 powi bitlen n / 2 powi (bitlen d - 1)"
      using bd(1) dpos by (intro divide_left_mono) (auto intro: mult_pos_pos)
    finally show ?thesis .
  qed
  moreover have "(2::rat) powi bitlen n / 2 powi (bitlen d - 1) = 2 powi (k + 1)"
    by (simp add: k_def power_int_diff power_int_add)
  ultimately have hi: "a < 2 powi (k + 1)"
    by simp
  have lo: "2 powi (k - 1) \<le> a"
  proof -
    have "(2::rat) powi (bitlen n - 1) / 2 powi bitlen d \<le> of_int n / 2 powi bitlen d"
      using bn(1) by (simp add: divide_right_mono)
    also have "\<dots> \<le> of_int n / of_int d"
      using bd(2) dpos n by (intro divide_left_mono) (auto intro: mult_pos_pos)
    finally have "(2::rat) powi (bitlen n - 1) / 2 powi bitlen d \<le> a"
      by (simp add: a)
    moreover have "(2::rat) powi (bitlen n - 1) / 2 powi bitlen d = 2 powi (k - 1)"
      by (simp add: k_def power_int_diff power_int_add)
    ultimately show ?thesis by simp
  qed
  have b: "binade a = (if 2 powi k \<le> a then k else k - 1)"
    by (simp add: binade_def q k_def)
  show "2 powi binade a \<le> a"
    using lo by (simp add: b)
  show "a < 2 powi (binade a + 1)"
    using hi by (auto simp add: b)
qed

lemma binade_unique:
  assumes "2 powi e \<le> a" and "a < 2 powi (e + 1)"
  shows "binade a = e"
proof -
  have "0 < (2::rat) powi e"
    by simp
  with assms(1) have pos: "0 < a"
    by linarith
  note b = binade_bounds [OF pos]
  have "(2::rat) powi e < 2 powi (binade a + 1)"
    using assms(1) b(2) by linarith
  then have 1: "e < binade a + 1"
    using power_int_increasing [of "binade a + 1" e "2::rat"] by (cases "e < binade a + 1") auto
  have "(2::rat) powi binade a < 2 powi (e + 1)"
    using assms(2) b(1) by linarith
  then have 2: "binade a < e + 1"
    using power_int_increasing [of "e + 1" "binade a" "2::rat"] by (cases "binade a < e + 1") auto
  from 1 2 show ?thesis
    by simp
qed

text \<open>
  With the binade known, rounding a value in the normal range is one rounding of the
  significand to an integer.
\<close>

lemma round_to_double_normal:
  assumes "2 powi e \<le> \<bar>x\<bar>" and "\<bar>x\<bar> < 2 powi (e + 1)" and "- 1022 \<le> e" and "e < 1023"
    and "round_half_even (\<bar>x\<bar> / 2 powi (e - 52)) = n"
  shows "round_to_double x = PFloat (if x < 0 then - (of_int n * 2 powi (e - 52))
                                     else of_int n * 2 powi (e - 52))"
proof -
  have b: "binade \<bar>x\<bar> = e"
    using assms(1,2) by (rule binade_unique)
  have "0 < (2::rat) powi e"
    by simp
  with assms(1) have "0 < \<bar>x\<bar>"
    by linarith
  then have x: "x \<noteq> 0"
    by simp
  have "(2::rat) powi 52 \<le> \<bar>x\<bar> / 2 powi (e - 52)"
  proof -
    have "(2::rat) powi e / 2 powi (e - 52) \<le> \<bar>x\<bar> / 2 powi (e - 52)"
      using assms(1) by (simp add: divide_right_mono)
    moreover have "(2::rat) powi e / 2 powi (e - 52) = 2 powi 52"
      by (simp add: power_int_diff)
    ultimately show ?thesis by simp
  qed
  moreover have "(1::rat) \<le> 2 powi 52"
    by simp
  ultimately have "(1::rat) \<le> \<bar>x\<bar> / 2 powi (e - 52)"
    by (rule order_trans [rotated])
  then have "1 \<le> \<lfloor>\<bar>x\<bar> / 2 powi (e - 52)\<rfloor>"
    by (simp add: le_floor_iff)
  then have "1 \<le> round_half_even (\<bar>x\<bar> / 2 powi (e - 52))"
    by (auto simp add: round_half_even_def Let_def)
  with assms(5) have n: "n \<noteq> 0"
    by auto
  define a where "a = \<bar>x\<bar>"
  from b assms(5) have "binade a = e" and "round_half_even (a / 2 powi (e - 52)) = n"
    by (simp_all add: a_def)
  with x n assms(3,4) show ?thesis
    unfolding round_to_double_def Let_def a_def [symmetric]
    by (simp add: max_def)
qed

lemma floor_rat_numeral: "\<lfloor>(numeral a :: rat) / numeral b\<rfloor> = numeral a div numeral b"
  using floor_divide_of_int_eq [of "numeral a" "numeral b", where ?'a = rat] by simp

lemma is_float_round_to_double: "is_float (round_to_double x)"
  by (simp add: round_to_double_def signed_inf_def signed_zero_def Let_def)

lemma round_to_double_cases:
  "(\<exists>q. round_to_double x = PFloat q) \<or> round_to_double x = PNegZero \<or>
   round_to_double x = PInf \<or> round_to_double x = PNegInf"
  by (simp add: round_to_double_def signed_inf_def signed_zero_def Let_def)

lemma is_float_round2: "is_float (round2 x)"
  by (simp add: round2_def signed_zero_def Let_def is_float_round_to_double)

lemma double_199_200:
  "round_to_double (199 / 200) = PFloat (8962163258467287 / 9007199254740992)"
  using round_to_double_normal [of "- 1" "199 / 200" 8962163258467287]
  by (simp add: round_half_even_def floor_rat_numeral)

lemma double_99_100:
  "round_to_double (99 / 100) = PFloat (4458563631096791 / 4503599627370496)"
  using round_to_double_normal [of "- 1" "99 / 100" 8917127262193582]
  by (simp add: round_half_even_def floor_rat_numeral)

lemma double_2: "round_to_double 2 = PFloat 2"
  using round_to_double_normal [of 1 2 4503599627370496]
  by (simp add: round_half_even_def)


subsection \<open>Mayer multiple\<close>


lemma truthy_number: "is_int_or_float v \<Longrightarrow> truthy v \<longleftrightarrow> num_of v \<noteq> Some 0"
  by (cases v) simp_all

lemma is_float_float_div: "float_div a b = Inr q \<Longrightarrow> is_float q"
  by (auto simp add: float_div_def signed_inf_def signed_zero_def is_float_round_to_double
      split: if_splits option.splits)

lemma checked_double_Inr:
  "(case d of PInf \<Rightarrow> Inl OverflowError | PNegInf \<Rightarrow> Inl OverflowError | v \<Rightarrow> Inr v) = Inr q
   \<Longrightarrow> q = d"
  by (cases d) auto

lemma py_float_is_float: "py_float a = Inr x \<Longrightarrow> is_float x"
proof (cases a)
  case (PInt i)
  assume "py_float a = Inr x"
  with PInt have "x = round_to_double (of_int i)"
    using checked_double_Inr by simp
  then show ?thesis
    by (simp add: is_float_round_to_double)
qed auto

lemma is_float_py_truediv: "py_truediv a b = Inr q \<Longrightarrow> is_float q"
proof (cases "is_int a \<and> is_int b")
  case True
  assume "py_truediv a b = Inr q"
  with True have "q = signed_zero (int_of b < 0) \<or>
      q = round_to_double (of_int (int_of a) / of_int (int_of b))"
    using checked_double_Inr [of "round_to_double (of_int (int_of a) / of_int (int_of b))" q]
    by (auto simp add: py_truediv_def split: if_splits)
  then show ?thesis
    by (auto simp add: signed_zero_def is_float_round_to_double)
next
  case False
  assume "py_truediv a b = Inr q"
  with False show ?thesis
    by (auto simp add: py_truediv_def is_float_float_div split: if_splits sum.splits)
qed

lemma py_round2_float: "is_float q \<Longrightarrow> \<exists>r. py_round2 q = Inr r \<and> is_float r"
  by (cases q) (simp_all add: is_float_round2)

lemma py_truediv_ints:
  "m \<noteq> 0 \<Longrightarrow> p \<noteq> 0 \<Longrightarrow>
   py_truediv (PInt p) (PInt m) =
     (case round_to_double (of_int p / of_int m) of
        PInf \<Rightarrow> Inl OverflowError
      | PNegInf \<Rightarrow> Inl OverflowError
      | d \<Rightarrow> Inr d)"
  by (simp add: py_truediv_def)

text \<open>
  Claim C3, as the code has it. For a price and a moving average that are each a number
  or \<^verbatim>\<open>None\<close>: when both are present and both are nonzero, the Mayer multiple is what
  \<^verbatim>\<open>round(price / moving_average, 2)\<close> gives (a float, or the exception of the
  division), and it is not \<^verbatim>\<open>None\<close>; when either is absent or zero, it is
  \<^verbatim>\<open>None\<close>, so a price of zero is treated like a missing price. For two nonzero
  ints the value is spelled out: the quotient is rounded to the nearest double (out of
  range raises OverflowError) and that double is rounded to two decimals.
\<close>

theorem mayer_multiple:
  assumes "price = PNone \<or> is_int_or_float price"
    and "moving_average = PNone \<or> is_int_or_float moving_average"
  shows
    "(is_int_or_float price \<and> num_of price \<noteq> Some 0 \<and>
      is_int_or_float moving_average \<and> num_of moving_average \<noteq> Some 0 \<longrightarrow>
        calculate_mayer_index price moving_average =
          (case py_truediv price moving_average of Inl e \<Rightarrow> Inl e | Inr q \<Rightarrow> py_round2 q) \<and>
        calculate_mayer_index price moving_average \<noteq> Inr PNone) \<and>
     (price = PNone \<or> num_of price = Some 0 \<or>
      moving_average = PNone \<or> num_of moving_average = Some 0 \<longrightarrow>
        calculate_mayer_index price moving_average = Inr PNone) \<and>
     (price = PInt p \<and> moving_average = PInt m \<and> p \<noteq> 0 \<and> m \<noteq> 0 \<longrightarrow>
        calculate_mayer_index price moving_average =
          (case round_to_double (of_int p / of_int m) of
             PFloat q \<Rightarrow> Inr (round2 q)
           | PNegZero \<Rightarrow> Inr PNegZero
           | _ \<Rightarrow> Inl OverflowError))"
proof (intro conjI impI)
  assume a: "is_int_or_float price \<and> num_of price \<noteq> Some 0 \<and>
      is_int_or_float moving_average \<and> num_of moving_average \<noteq> Some 0"
  then have t: "truthy price \<and> truthy moving_average"
    by (simp add: truthy_number)
  then show eq: "calculate_mayer_index price moving_average =
          (case py_truediv price moving_average of Inl e \<Rightarrow> Inl e | Inr q \<Rightarrow> py_round2 q)"
    by (simp add: calculate_mayer_index_def)
  show "calculate_mayer_index price moving_average \<noteq> Inr PNone"
  proof (cases "py_truediv price moving_average")
    case (Inl e)
    then show ?thesis
      by (simp add: eq)
  next
    case (Inr q)
    then obtain r where "py_round2 q = Inr r" "is_float r"
      using is_float_py_truediv py_round2_float by blast
    with Inr show ?thesis
      by (auto simp add: eq)
  qed
next
  assume "price = PNone \<or> num_of price = Some 0 \<or>
      moving_average = PNone \<or> num_of moving_average = Some 0"
  with assms have "\<not> (truthy price \<and> truthy moving_average)"
    using truthy_number [of price] truthy_number [of moving_average] by auto
  then show "calculate_mayer_index price moving_average = Inr PNone"
    by (auto simp add: calculate_mayer_index_def)
next
  assume a: "price = PInt p \<and> moving_average = PInt m \<and> p \<noteq> 0 \<and> m \<noteq> 0"
  then show "calculate_mayer_index price moving_average =
          (case round_to_double (of_int p / of_int m) of
             PFloat q \<Rightarrow> Inr (round2 q)
           | PNegZero \<Rightarrow> Inr PNegZero
           | _ \<Rightarrow> Inl OverflowError)"
    using round_to_double_cases [of "of_int p / of_int m"]
    by (auto simp add: calculate_mayer_index_def py_truediv_ints)
qed

text \<open>
  \<^verbatim>\<open>mayer(100, 50) == 2.00\<close>; \<^verbatim>\<open>mayer(100, 0)\<close> and \<^verbatim>\<open>mayer(None, 50)\<close> are absent;
  \<^verbatim>\<open>mayer(49750, 50000)\<close> is the double 0.99, because the double nearest to 0.995 lies
  below it.
\<close>

theorem mayer_multiple_witness:
  "calculate_mayer_index (PInt 100) (PInt 50) = Inr (PFloat 2) \<and>
   calculate_mayer_index (PInt 100) (PInt 0) = Inr PNone \<and>
   calculate_mayer_index PNone (PInt 50) = Inr PNone \<and>
   calculate_mayer_index (PInt 49750) (PInt 50000) =
     Inr (PFloat (4458563631096791 / 4503599627370496))"
proof -
  have r2: "round2 2 = PFloat 2"
    by (simp add: round2_def round_half_even_def double_2)
  have r99: "round2 (8962163258467287 / 9007199254740992) =
               PFloat (4458563631096791 / 4503599627370496)"
    by (simp add: round2_def round_half_even_def floor_rat_numeral double_99_100)
  have "calculate_mayer_index (PInt 100) (PInt 50) = Inr (PFloat 2)"
    using mayer_multiple [of "PInt 100" "PInt 50" 100 50] by (auto simp add: double_2 r2)
  moreover have "calculate_mayer_index (PInt 100) (PInt 0) = Inr PNone"
    using mayer_multiple [of "PInt 100" "PInt 0"] by simp
  moreover have "calculate_mayer_index PNone (PInt 50) = Inr PNone"
    using mayer_multiple [of PNone "PInt 50"] by simp
  moreover have "calculate_mayer_index (PInt 49750) (PInt 50000) =
     Inr (PFloat (4458563631096791 / 4503599627370496))"
    using mayer_multiple [of "PInt 49750" "PInt 50000" 49750 50000]
    by (auto simp add: double_199_200 r99)
  ultimately show ?thesis
    by blast
qed

text \<open>
  Claim C3 as stated asks for \<^verbatim>\<open>round(0 / 50, 2)\<close>, that is 0.0, for a price of 0 and
  a moving average of 50: both are present and the moving average is nonzero. The code
  returns \<^verbatim>\<open>None\<close>.
\<close>

theorem mayer_zero_price_counterexample:
  "calculate_mayer_index (PInt 0) (PInt 50) = Inr PNone \<and>
   py_truediv (PInt 0) (PInt 50) = Inr (PFloat 0) \<and>
   py_round2 (PFloat 0) = Inr (PFloat 0) \<and>
   calculate_mayer_index (PInt 0) (PInt 50) \<noteq> Inr (PFloat 0)"
  by (simp add: calculate_mayer_index_def py_truediv_def signed_zero_def round2_def
      round_half_even_def)

subsection \<open>Moving average\<close>







lemma price_components_length:
  "price_components items = Inr ps \<Longrightarrow> length ps = length items"
  by (induction items arbitrary: ps) (auto split: sum.splits)




text \<open>The fetcher on a non-empty series whose price components can all be read.\<close>

lemma ma_of_prices:
  assumes "map_of kvs ''prices'' = Some (PList items)" and "items \<noteq> []"
    and "price_components items = Inr ps"
  shows "get_200_day_ma fs (Json (PDict kvs)) =
           (case py_sum fs ps of
              Inl e \<Rightarrow> PNone
            | Inr t \<Rightarrow>
                (case py_truediv t (PInt (int (length items))) of
                   Inl e \<Rightarrow> PNone
                 | Inr m \<Rightarrow> (case math_floor m of Inl e \<Rightarrow> m | Inr f \<Rightarrow> f)))"
proof -
  from price_components_length [OF assms(3)] assms(2) have "ps \<noteq> []" and "length ps = length items"
    by auto
  with assms show ?thesis
    by (simp add: get_200_day_ma_def get_200_day_ma_try_def dict_get_def
        split: sum.splits)
qed




lemma ma_absent_without_series:
  "map_of kvs ''prices'' = None \<Longrightarrow> get_200_day_ma fs (Json (PDict kvs)) = PNone"
  "map_of kvs ''prices'' = Some v \<Longrightarrow> (\<forall>items. v \<noteq> PList items) \<Longrightarrow>
     get_200_day_ma fs (Json (PDict kvs)) = PNone"
  by (auto simp add: get_200_day_ma_def get_200_day_ma_try_def dict_get_def split: pyval.splits)

lemma double_0: "round_to_double 0 = PFloat 0"
  by (simp add: round_to_double_def)

lemma double_1: "round_to_double 1 = PFloat 1"
  using round_to_double_normal [of 0 1 4503599627370496]
  by (simp add: round_half_even_def)

text \<open>
  When the mean is an infinity, \<^verbatim>\<open>math.floor\<close> raises after \<^verbatim>\<open>ma200\<close> has been
  assigned the quotient, and the fetcher returns that float.
\<close>

lemma ma_unfloored_when_floor_raises:
  "get_200_day_ma plain_float_sum
     (Json (PDict [(''prices'', PList [PList [PInt 1700000000, PInf]])])) = PInf"
proof -
  have total: "py_sum plain_float_sum [PInf] = Inr PInf"
    by (simp add: py_sum_def plain_float_sum_def plain_add_def float_add_def double_0)
  have div: "py_truediv PInf (PInt 1) = Inr PInf"
    by (simp add: py_truediv_def float_div_def double_1 signed_inf_def)
  show ?thesis
    using ma_of_prices [of "[(''prices'', PList [PList [PInt 1700000000, PInf]])]"
        "[PList [PInt 1700000000, PInf]]" "[PInf]" plain_float_sum]
    by (simp add: total div)
qed









subsection \<open>Failure of a fetcher\<close>

lemma fetchers_absent_when_request_fails:
  assumes "http_json resp = Inl e"
  shows "get_btc_price resp = PNone" and "get_btc_ath resp = PNone"
    and "get_200_day_ma fs resp = PNone" and "get_fear_and_greed str_int resp = (PNone, PNone)"
  using assms
  by (simp_all add: get_btc_price_def get_btc_price_try_def get_btc_ath_def get_btc_ath_try_def
      get_200_day_ma_def get_200_day_ma_try_def get_fear_and_greed_def
      get_fear_and_greed_try_def)

text \<open>
  Claim C1 fails on the code. The fear and greed fetcher assigns \<^verbatim>\<open>label\<close> before it
  checks \<^verbatim>\<open>value_raw\<close> and before it coerces it: on a response whose first element
  has a classification but no \<^verbatim>\<open>value\<close>, or a \<^verbatim>\<open>value\<close> that \<^verbatim>\<open>int\<close> rejects
  (here a list), it returns \<^verbatim>\<open>None\<close> with the label populated. The price and
  all-time-high fetchers assign the result variable before they check its type: on a
  \<^verbatim>\<open>usd\<close> field that is a string they return the string, not \<^verbatim>\<open>None\<close>.
\<close>

theorem fetchers_partial_result_on_failure:
  "get_fear_and_greed str_int
     (Json (PDict [(''data'', PList [PDict [(''value_classification'', PStr ''Fear'')]])]))
     = (PNone, PStr ''Fear'') \<and>
   get_fear_and_greed str_int
     (Json (PDict [(''data'', PList [PDict [(''value'', PList []),
                                            (''value_classification'', PStr ''Fear'')]])]))
     = (PNone, PStr ''Fear'') \<and>
   get_btc_price (Json (PDict [(''bitcoin'', PDict [(''usd'', PStr ''65000'')])]))
     = PStr ''65000'' \<and>
   get_btc_ath
     (Json (PDict [(''market_data'', PDict [(''ath'', PDict [(''usd'', PStr ''73000'')])])]))
     = PStr ''73000''"
  by (simp add: get_fear_and_greed_def get_fear_and_greed_try_def get_btc_price_def
      get_btc_price_try_def get_btc_ath_def get_btc_ath_try_def dict_get_simps)

subsection \<open>Line count and erase count\<close>

lemma check_indexes_eq:
  "check_indexes price btc_ath ma200 mayer fear_value fees =
     (if \<not> buy_signal mayer fear_value \<and> \<not> transfer_signal (half_hour_fee_of fees) \<and>
         \<not> missing_data [price, btc_ath, ma200, mayer, fear_value, fees]
      then (NO_SIGNALS_LINE, 1)
      else ((if buy_signal mayer fear_value then BUY_SIGNAL_LINE else []) @
            (if transfer_signal (half_hour_fee_of fees) then TRANSFER_SIGNAL_LINE else []) @
            (if missing_data [price, btc_ath, ma200, mayer, fear_value, fees]
             then MISSING_DATA_LINE else []),
            (if buy_signal mayer fear_value then 1 else 0) +
            (if transfer_signal (half_hour_fee_of fees) then 1 else 0) +
            (if missing_data [price, btc_ath, ma200, mayer, fear_value, fees] then 1 else 0)))"
  by (simp add: check_indexes_def signal_rules_eq lines_nonempty)

lemma newlines_of_line:
  "count_list BUY_SIGNAL_LINE (CHR 0x0A) = 1" "count_list TRANSFER_SIGNAL_LINE (CHR 0x0A) = 1"
  "count_list MISSING_DATA_LINE (CHR 0x0A) = 1" "count_list NO_SIGNALS_LINE (CHR 0x0A) = 1"
  by (simp_all add: BUY_SIGNAL_LINE_def TRANSFER_SIGNAL_LINE_def MISSING_DATA_LINE_def
      NO_SIGNALS_LINE_def)

lemma count_list_append: "count_list (xs @ ys) c = count_list xs c + count_list ys c"
  by (induction xs) simp_all

lemma check_indexes_newlines:
  "snd (check_indexes price btc_ath ma200 mayer fear_value fees) =
     count_list (fst (check_indexes price btc_ath ma200 mayer fear_value fees)) (CHR 0x0A)"
  by (simp add: check_indexes_eq newlines_of_line count_list_append)

lemma check_indexes_lines:
  "\<exists>ls. set ls \<subseteq> {BUY_SIGNAL_LINE, TRANSFER_SIGNAL_LINE, MISSING_DATA_LINE, NO_SIGNALS_LINE} \<and>
        fst (check_indexes price btc_ath ma200 mayer fear_value fees) = concat ls \<and>
        snd (check_indexes price btc_ath ma200 mayer fear_value fees) = length ls"
proof -
  define ls where "ls =
    (if buy_signal mayer fear_value then [BUY_SIGNAL_LINE] else []) @
    (if transfer_signal (half_hour_fee_of fees) then [TRANSFER_SIGNAL_LINE] else []) @
    (if missing_data [price, btc_ath, ma200, mayer, fear_value, fees]
     then [MISSING_DATA_LINE] else []) @
    (if \<not> buy_signal mayer fear_value \<and> \<not> transfer_signal (half_hour_fee_of fees) \<and>
        \<not> missing_data [price, btc_ath, ma200, mayer, fear_value, fees]
     then [NO_SIGNALS_LINE] else [])"
  have "set ls \<subseteq> {BUY_SIGNAL_LINE, TRANSFER_SIGNAL_LINE, MISSING_DATA_LINE, NO_SIGNALS_LINE}"
    by (auto simp add: ls_def)
  moreover have "fst (check_indexes price btc_ath ma200 mayer fear_value fees) = concat ls"
    by (simp add: ls_def check_indexes_eq)
  moreover have "snd (check_indexes price btc_ath ma200 mayer fear_value fees) = length ls"
    by (simp add: ls_def check_indexes_eq)
  ultimately show ?thesis
    by blast
qed

lemma clear_terminal_lines_bytes:
  "clear_terminal_lines n =
     concat (replicate n [Write [CHR 0x1B, CHR ''['', CHR ''F''],
                          Write [CHR 0x1B, CHR ''['', CHR ''K'']])"
  by (simp add: clear_terminal_lines_def cursor_up_def clear_line_def)

lemma loop_body_completes:
  assumes "calculate_mayer_index (get_btc_price r_price) (get_200_day_ma fs r_ma) = Inr mayer"
    and "fee_line fmt (get_transfer_fees r_fees) = Inr fee_print"
  shows "loop_body fmt str_int fs r_price r_ath r_ma r_fg r_fees =
           ([Print ''Fetching data...''] @
            map Warning (get_transfer_fees_warnings r_fees) @
            [Write [CHR 0x1B, CHR ''['', CHR ''F''], Write [CHR 0x1B, CHR ''['', CHR ''K'']] @
            metric_lines fmt (get_btc_price r_price) (get_btc_ath r_ath) (get_200_day_ma fs r_ma)
              mayer (fst (get_fear_and_greed str_int r_fg)) (snd (get_fear_and_greed str_int r_fg)) @
            [fee_print,
             Print (fst (check_indexes (get_btc_price r_price) (get_btc_ath r_ath)
               (get_200_day_ma fs r_ma) mayer (fst (get_fear_and_greed str_int r_fg))
               (get_transfer_fees r_fees))),
             Sleep 1800] @
            concat (replicate
              (snd (check_indexes (get_btc_price r_price) (get_btc_ath r_ath)
                 (get_200_day_ma fs r_ma) mayer (fst (get_fear_and_greed str_int r_fg))
                 (get_transfer_fees r_fees)) + 7)
              [Write [CHR 0x1B, CHR ''['', CHR ''F''], Write [CHR 0x1B, CHR ''['', CHR ''K'']]),
            None)"
  by (simp add: loop_body_def assms Let_def split_def clear_terminal_lines_bytes)

text \<open>
  Claim C5. For every input of the evaluator, the returned message is the
  concatenation of advisory lines and the returned count is their number (which is also
  the number of newline characters of the message). An iteration of the main loop that
  gets as far as the evaluator has exactly these effects: it prints the status line,
  logs the fee warnings, erases one line, prints the six metric lines and the message,
  sleeps 1800 seconds, and then writes, count plus 7 times, the two sequences that move
  the cursor up one line (ESC [ F) and clear that line (ESC [ K).
\<close>

theorem line_count_and_erase_count:
  "(\<exists>ls. set ls \<subseteq>
           {BUY_SIGNAL_LINE, TRANSFER_SIGNAL_LINE, MISSING_DATA_LINE, NO_SIGNALS_LINE} \<and>
         fst (check_indexes price btc_ath ma200 mayer fear_value fees) = concat ls \<and>
         snd (check_indexes price btc_ath ma200 mayer fear_value fees) = length ls) \<and>
   snd (check_indexes price btc_ath ma200 mayer fear_value fees) =
     count_list (fst (check_indexes price btc_ath ma200 mayer fear_value fees)) (CHR 0x0A) \<and>
   (calculate_mayer_index (get_btc_price r_price) (get_200_day_ma fs r_ma) = Inr my \<longrightarrow>
      (\<exists>fee_print.
         fee_line fmt (get_transfer_fees r_fees) = Inr fee_print \<and>
         loop_body fmt str_int fs r_price r_ath r_ma r_fg r_fees =
           ([Print ''Fetching data...''] @
            map Warning (get_transfer_fees_warnings r_fees) @
            [Write [CHR 0x1B, CHR ''['', CHR ''F''], Write [CHR 0x1B, CHR ''['', CHR ''K'']] @
            metric_lines fmt (get_btc_price r_price) (get_btc_ath r_ath) (get_200_day_ma fs r_ma)
              my (fst (get_fear_and_greed str_int r_fg)) (snd (get_fear_and_greed str_int r_fg)) @
            [fee_print,
             Print (fst (check_indexes (get_btc_price r_price) (get_btc_ath r_ath)
               (get_200_day_ma fs r_ma) my (fst (get_fear_and_greed str_int r_fg))
               (get_transfer_fees r_fees))),
             Sleep 1800] @
            concat (replicate
              (snd (check_indexes (get_btc_price r_price) (get_btc_ath r_ath)
                 (get_200_day_ma fs r_ma) my (fst (get_fear_and_greed str_int r_fg))
                 (get_transfer_fees r_fees)) + 7)
              [Write [CHR 0x1B, CHR ''['', CHR ''F''], Write [CHR 0x1B, CHR ''['', CHR ''K'']]),
            None)))"
proof (intro conjI impI)
  show "\<exists>ls. set ls \<subseteq>
           {BUY_SIGNAL_LINE, TRANSFER_SIGNAL_LINE, MISSING_DATA_LINE, NO_SIGNALS_LINE} \<and>
         fst (check_indexes price btc_ath ma200 mayer fear_value fees) = concat ls \<and>
         snd (check_indexes price btc_ath ma200 mayer fear_value fees) = length ls"
    by (rule check_indexes_lines)
  show "snd (check_indexes price btc_ath ma200 mayer fear_value fees) =
     count_list (fst (check_indexes price btc_ath ma200 mayer fear_value fees)) (CHR 0x0A)"
    by (rule check_indexes_newlines)
next
  assume m: "calculate_mayer_index (get_btc_price r_price) (get_200_day_ma fs r_ma) = Inr my"
  obtain p where p: "fee_line fmt (get_transfer_fees r_fees) = Inr p"
    using fee_line_ok by blast
  from loop_body_completes [OF m p] p
  show "\<exists>fee_print.
         fee_line fmt (get_transfer_fees r_fees) = Inr fee_print \<and>
         loop_body fmt str_int fs r_price r_ath r_ma r_fg r_fees =
           ([Print ''Fetching data...''] @
            map Warning (get_transfer_fees_warnings r_fees) @
            [Write [CHR 0x1B, CHR ''['', CHR ''F''], Write [CHR 0x1B, CHR ''['', CHR ''K'']] @
            metric_lines fmt (get_btc_price r_price) (get_btc_ath r_ath) (get_200_day_ma fs r_ma)
              my (fst (get_fear_and_greed str_int r_fg)) (snd (get_fear_and_greed str_int r_fg)) @
            [fee_print,
             Print (fst (check_indexes (get_btc_price r_price) (get_btc_ath r_ath)
               (get_200_day_ma fs r_ma) my (fst (get_fear_and_greed str_int r_fg))
               (get_transfer_fees r_fees))),
             Sleep 1800] @
            concat (replicate
              (snd (check_indexes (get_btc_price r_price) (get_btc_ath r_ath)
                 (get_200_day_ma fs r_ma) my (fst (get_fear_and_greed str_int r_fg))
                 (get_transfer_fees r_fees)) + 7)
              [Write [CHR 0x1B, CHR ''['', CHR ''F''], Write [CHR 0x1B, CHR ''['', CHR ''K'']]),
            None)"
    by blast
qed

text \<open>
  A cycle in which every request fails with a non-2xx status: no fee warning is logged,
  the message is the missing-data warning, one line, and the iteration ends by erasing
  8 lines.
\<close>

theorem line_count_and_erase_count_witness:
  "\<exists>fee_print.
     loop_body (\<lambda>v. ''?'') (\<lambda>s. None) plain_float_sum
       Status_raises Status_raises Status_raises Status_raises Status_raises =
     ([Print ''Fetching data...'',
       Write [CHR 0x1B, CHR ''['', CHR ''F''], Write [CHR 0x1B, CHR ''['', CHR ''K'']] @
      metric_lines (\<lambda>v. ''?'') PNone PNone PNone PNone PNone PNone @
      [fee_print, Print MISSING_DATA_LINE, Sleep 1800] @
      concat (replicate 8
        [Write [CHR 0x1B, CHR ''['', CHR ''F''], Write [CHR 0x1B, CHR ''['', CHR ''K'']]),
      None)"
proof -
  have price: "get_btc_price Status_raises = PNone" and ath: "get_btc_ath Status_raises = PNone"
    and ma: "get_200_day_ma plain_float_sum Status_raises = PNone"
    and fg: "get_fear_and_greed (\<lambda>s. None) Status_raises = (PNone, PNone)"
    using fetchers_absent_when_request_fails [of Status_raises RequestException] by simp_all
  have mayer: "calculate_mayer_index (get_btc_price Status_raises)
                 (get_200_day_ma plain_float_sum Status_raises) = Inr PNone"
    by (simp add: price ma calculate_mayer_index_def)
  have fees: "get_transfer_fees Status_raises = PDict new_fees_init"
    by (simp add: get_transfer_fees_failure)
  have warnings: "get_transfer_fees_warnings Status_raises = []"
    by (simp add: get_transfer_fees_warnings_def get_transfer_fees_try_def)
  have ci: "check_indexes PNone PNone PNone PNone PNone (PDict new_fees_init) =
              (MISSING_DATA_LINE, 1)"
    by (simp add: check_indexes_eq signal_defs new_fees_init_def)
  from mayer line_count_and_erase_count [where r_price = Status_raises and r_ma = Status_raises
      and fs = plain_float_sum and my = PNone and fmt = "\<lambda>v. ''?''" and str_int = "\<lambda>s. None"
      and r_ath = Status_raises and r_fg = Status_raises and r_fees = Status_raises]
  obtain fee_print where
    "loop_body (\<lambda>v. ''?'') (\<lambda>s. None) plain_float_sum
       Status_raises Status_raises Status_raises Status_raises Status_raises =
     ([Print ''Fetching data...''] @
      map Warning (get_transfer_fees_warnings Status_raises) @
      [Write [CHR 0x1B, CHR ''['', CHR ''F''], Write [CHR 0x1B, CHR ''['', CHR ''K'']] @
      metric_lines (\<lambda>v. ''?'') (get_btc_price Status_raises) (get_btc_ath Status_raises)
        (get_200_day_ma plain_float_sum Status_raises) PNone
        (fst (get_fear_and_greed (\<lambda>s. None) Status_raises))
        (snd (get_fear_and_greed (\<lambda>s. None) Status_raises)) @
      [fee_print,
       Print (fst (check_indexes (get_btc_price Status_raises) (get_btc_ath Status_raises)
         (get_200_day_ma plain_float_sum Status_raises) PNone
         (fst (get_fear_and_greed (\<lambda>s. None) Status_raises))
         (get_transfer_fees Status_raises))),
       Sleep 1800] @
      concat (replicate
        (snd (check_indexes (get_btc_price Status_raises) (get_btc_ath Status_raises)
           (get_200_day_ma plain_float_sum Status_raises) PNone
           (fst (get_fear_and_greed (\<lambda>s. None) Status_raises))
           (get_transfer_fees Status_raises)) + 7)
        [Write [CHR 0x1B, CHR ''['', CHR ''F''], Write [CHR 0x1B, CHR ''['', CHR ''K'']]),
      None)"
    by blast
  then have "loop_body (\<lambda>v. ''?'') (\<lambda>s. None) plain_float_sum
       Status_raises Status_raises Status_raises Status_raises Status_raises =
     ([Print ''Fetching data...'',
       Write [CHR 0x1B, CHR ''['', CHR ''F''], Write [CHR 0x1B, CHR ''['', CHR ''K'']] @
      metric_lines (\<lambda>v. ''?'') PNone PNone PNone PNone PNone PNone @
      [fee_print, Print MISSING_DATA_LINE, Sleep 1800] @
      concat (replicate 8
        [Write [CHR 0x1B, CHR ''['', CHR ''F''], Write [CHR 0x1B, CHR ''['', CHR ''K'']]),
      None)"
    by (simp add: price ath ma fg fees warnings ci)
  then show ?thesis
    by blast
qed

end
